theory Spec2Isabelle
  imports Complex_Main "HOL-Library.Word"
begin

section \<open>Linguist Live: the session component (App.tsx)\<close>

text \<open>
  The development embeds the \<^verbatim>\<open>App\<close> component of the repository: its React state,
  its refs, and the callbacks \<^verbatim>\<open>connect\<close>, \<^verbatim>\<open>disconnect\<close>, \<^verbatim>\<open>onopen\<close>,
  \<^verbatim>\<open>onmessage\<close>, \<^verbatim>\<open>onerror\<close> and \<^verbatim>\<open>onclose\<close>. The repository holds
  three versions of the component; the one embedded is the latest. All three have the same
  audio and interruption branches in \<^verbatim>\<open>onmessage\<close>, the same teardown of session,
  sources and contexts in \<^verbatim>\<open>disconnect\<close>, and the same \<^verbatim>\<open>catch\<close> block in
  \<^verbatim>\<open>connect\<close>. The earlier ones differ in the instruction and error texts; the
  earliest has no tense indicator and reads the transcription texts unguarded; the second
  has the marker \<^verbatim>\<open>koreksi:\<close> in place of \<^verbatim>\<open>correction:\<close>.

  The callbacks run on one thread, and each is a function from the state before it to the
  state after it. The \<^verbatim>\<open>await\<close> inside \<^verbatim>\<open>onmessage\<close> is taken not to let another
  callback in (the decoder completes synchronously), and the state updaters that the
  callbacks queue are applied in the order in which they are queued. How often React
  runs an updater is a parameter where it matters: for the two updaters of the
  turn-complete branch, which append to the history. Times and durations are JavaScript
  numbers; they are modelled as real numbers.

  The module \<^verbatim>\<open>services/audioUtils\<close> is not among the sources. Where the component
  calls its decoder, the decoder is a parameter; the sample format itself is modelled
  from the specification, in a subsection of its own.
\<close>

subsection \<open>JavaScript strings\<close>

text \<open>
  A JavaScript string is a sequence of UTF-16 code units. It is modelled as a
  \<^typ>\<open>string\<close> whose characters are the code units U+0000 to U+00FF; code units above
  that range are outside the model.
\<close>

definition code_unit :: "char \<Rightarrow> nat" where
  "code_unit c = of_char c"

text \<open>\<^verbatim>\<open>String.prototype.toLowerCase\<close> on that range: A-Z and the capital letters
  U+00C0 to U+00DE (the multiplication sign U+00D7 apart) move up by 32.\<close>

definition lower_char :: "char \<Rightarrow> char" where
  "lower_char c =
     (let n = code_unit c in
      if (65 \<le> n \<and> n \<le> 90) \<or> (192 \<le> n \<and> n \<le> 222 \<and> n \<noteq> 215)
      then char_of (n + 32) else c)"

definition toLowerCase :: "string \<Rightarrow> string" where
  "toLowerCase s = map lower_char s"

text \<open>\<^verbatim>\<open>String.prototype.startsWith\<close> and \<^verbatim>\<open>String.prototype.includes\<close>.\<close>

definition startsWith :: "string \<Rightarrow> string \<Rightarrow> bool" where
  "startsWith s p = (take (length p) s = p)"

fun includes_str :: "string \<Rightarrow> string \<Rightarrow> bool" where
  "includes_str [] sub = (sub = [])"
| "includes_str (c # cs) sub = (startsWith (c # cs) sub \<or> includes_str cs sub)"

text \<open>The white space that \<^verbatim>\<open>String.prototype.trim\<close> removes, on the modelled range:
  TAB, LF, VT, FF, CR, SPACE and NO-BREAK SPACE.\<close>

definition isWhiteSpace :: "char \<Rightarrow> bool" where
  "isWhiteSpace c = (code_unit c \<in> {9, 10, 11, 12, 13, 32, 160})"

definition trim :: "string \<Rightarrow> string" where
  "trim s = rev (dropWhile isWhiteSpace (rev (dropWhile isWhiteSpace s)))"

text \<open>
  \<^verbatim>\<open>text.replace(/<noise>|\[noise\]/gi, '')\<close>: one pass from left to right; at each
  position a match of either alternative, letters compared without regard to case, is
  removed and the scan goes on behind it; otherwise the character is kept. Both
  alternatives are seven code units long.
\<close>

definition noiseAt :: "string \<Rightarrow> bool" where
  "noiseAt s =
     (let w = toLowerCase (take 7 s) in w = ''<noise>'' \<or> w = ''[noise]'')"

function replaceNoise :: "string \<Rightarrow> string" where
  "replaceNoise [] = []"
| "replaceNoise (c # cs) =
     (if noiseAt (c # cs) then replaceNoise (drop 7 (c # cs))
      else c # replaceNoise cs)"
  by pat_completeness auto
termination
  by (relation "measure length") auto

text \<open>\<^verbatim>\<open>Number.prototype.toString\<close> on a non-negative integer (\<^verbatim>\<open>Date.now()\<close>).\<close>

definition digit :: "nat \<Rightarrow> char" where
  "digit d = char_of (48 + d)"

fun toString :: "nat \<Rightarrow> string" where
  "toString n = (if n < 10 then [digit n] else toString (n div 10) @ [digit (n mod 10)])"

declare toString.simps [simp del]

subsection \<open>types.ts\<close>

datatype Role = User | Model

datatype MessageType = Chat | Correction | Tip

record Message =
  msg_id :: string
  msg_role :: Role
  msg_text :: string
  msg_type :: MessageType
  msg_timestamp :: nat

datatype SessionStatus = DISCONNECTED | CONNECTING | CONNECTED | ERROR

datatype GrammarTense = Present | Past | Future

subsection \<open>The server message\<close>

text \<open>
  The fields of \<^verbatim>\<open>message.serverContent\<close> that the handler reads. A transcription
  object may be present without a \<^verbatim>\<open>text\<close>; \<open>parts\<close> is \<^verbatim>\<open>modelTurn?.parts\<close>,
  each part given by its \<^verbatim>\<open>inlineData?.data\<close>. A message without
  \<^verbatim>\<open>serverContent\<close> has every field absent.
\<close>

record LiveServerMessage =
  outputTranscription :: "string option option"
  inputTranscription :: "string option option"
  turnComplete :: bool
  parts :: "string option list option"
  interrupted :: bool

text \<open>\<^verbatim>\<open>x || ''\<close> on an optional string.\<close>

definition orEmpty :: "string option \<Rightarrow> string" where
  "orEmpty t = (case t of None \<Rightarrow> [] | Some x \<Rightarrow> x)"

text \<open>\<^verbatim>\<open>message.serverContent?.modelTurn?.parts?.[0]?.inlineData?.data\<close>.\<close>

definition base64Audio :: "LiveServerMessage \<Rightarrow> string option" where
  "base64Audio m = (case parts m of Some (p # ps) \<Rightarrow> p | _ \<Rightarrow> None)"

subsection \<open>State\<close>

text \<open>
  The first group of fields is the component's own state (\<^verbatim>\<open>useState\<close> and
  \<^verbatim>\<open>useRef\<close>); objects are named by numbers, \<open>sources\<close> is the JavaScript
  \<^verbatim>\<open>Set\<close> in insertion order. The second group records what the component has done
  to the browser and the transport: which audio contexts, microphone streams and
  sessions it holds open, which buffer sources it has started (handle, start time,
  duration), which of them it has stopped, and which have fired \<^verbatim>\<open>ended\<close>.
\<close>

record app_state =
  status :: SessionStatus
  messages :: "Message list"
  currentInput :: string
  currentOutput :: string
  error :: "string option"
  currentTense :: GrammarTense
  inputAudioContextRef :: "nat option"
  outputAudioContextRef :: "nat option"
  inputAnalyserRef :: "nat option"
  outputAnalyserRef :: "nat option"
  sources :: "nat list"
  nextStartTime :: real
  sessionRef :: "nat option"
  allocated :: nat
  openContexts :: "nat set"
  liveStreams :: "nat set"
  openSessions :: "nat set"
  started :: "(nat \<times> real \<times> real) list"
  stopped :: "nat set"
  ended :: "nat set"

definition initial :: app_state where
  "initial =
     \<lparr>status = DISCONNECTED, messages = [], currentInput = [], currentOutput = [],
      error = None, currentTense = Present,
      inputAudioContextRef = None, outputAudioContextRef = None,
      inputAnalyserRef = None, outputAnalyserRef = None,
      sources = [], nextStartTime = 0, sessionRef = None,
      allocated = 0, openContexts = {}, liveStreams = {}, openSessions = {},
      started = [], stopped = {}, ended = {}\<rparr>"


subsection \<open>Exceptions\<close>

datatype exn = InvalidStateError | DecodeError

text \<open>A callback either runs to its end or throws; the refs it has written by then stay
  written.\<close>

datatype outcome = Completed app_state | Threw exn app_state

fun final :: "outcome \<Rightarrow> app_state" where
  "final (Completed s) = s"
| "final (Threw e s) = s"

fun raised :: "outcome \<Rightarrow> exn option" where
  "raised (Completed s) = None"
| "raised (Threw e s) = Some e"

text \<open>\<^verbatim>\<open>try { f() } catch (e) {}\<close>.\<close>

definition tryCatch :: "(app_state \<Rightarrow> outcome) \<Rightarrow> app_state \<Rightarrow> app_state" where
  "tryCatch f s = final (f s)"

text \<open>
  \<^verbatim>\<open>source.stop()\<close> throws on a source that was never started.
  \<^verbatim>\<open>session.close()\<close> is taken to throw on a session that is not open (the code
  guards the call, so the model lets it fail). \<^verbatim>\<open>AudioContext.close()\<close> returns a
  promise and does not throw.
\<close>

definition source_stop :: "nat \<Rightarrow> app_state \<Rightarrow> outcome" where
  "source_stop h s =
     (if h \<in> fst ` set (started s) then Completed (s\<lparr>stopped := insert h (stopped s)\<rparr>)
      else Threw InvalidStateError s)"

definition session_close :: "nat \<Rightarrow> app_state \<Rightarrow> outcome" where
  "session_close h s =
     (if h \<in> openSessions s then Completed (s\<lparr>openSessions := openSessions s - {h}\<rparr>)
      else Threw InvalidStateError s)"

definition context_close :: "nat \<Rightarrow> app_state \<Rightarrow> app_state" where
  "context_close c s = s\<lparr>openContexts := openContexts s - {c}\<rparr>"

subsection \<open>disconnect\<close>

text \<open>\<^verbatim>\<open>sourcesRef.current.forEach(source => { try { source.stop(); } catch (e) {} })\<close>.\<close>

definition stopAll :: "app_state \<Rightarrow> app_state" where
  "stopAll s = fold (\<lambda>h. tryCatch (source_stop h)) (sources s) s"

text \<open>\<^verbatim>\<open>if (sessionRef.current) { try { sessionRef.current.close(); } catch (e) {}
  sessionRef.current = null; }\<close>.\<close>

definition closeSession :: "app_state \<Rightarrow> app_state" where
  "closeSession s =
     (case sessionRef s of
        None \<Rightarrow> s
      | Some h \<Rightarrow> (tryCatch (session_close h) s)\<lparr>sessionRef := None\<rparr>)"

text \<open>Each context is closed if its ref holds one; then the four refs are set to
  \<^verbatim>\<open>null\<close>.\<close>

definition closeContexts :: "app_state \<Rightarrow> app_state" where
  "closeContexts s =
     (let s1 = (case inputAudioContextRef s of None \<Rightarrow> s | Some c \<Rightarrow> context_close c s);
          s2 = (case outputAudioContextRef s1 of None \<Rightarrow> s1 | Some c \<Rightarrow> context_close c s1)
      in s2\<lparr>inputAudioContextRef := None, outputAudioContextRef := None,
            inputAnalyserRef := None, outputAnalyserRef := None\<rparr>)"

text \<open>The callback in the order of its statements; the last four are the state setters.
  No statement outside a \<^verbatim>\<open>try\<close> can throw, so the callback runs to its end.\<close>

definition disconnect :: "app_state \<Rightarrow> outcome" where
  "disconnect s =
     (let s1 = closeSession s;
          s2 = (stopAll s1)\<lparr>sources := [], nextStartTime := 0\<rparr>;
          s3 = closeContexts s2
      in Completed (s3\<lparr>status := DISCONNECTED, currentInput := [], currentOutput := [],
                       currentTense := Present\<rparr>))"

subsection \<open>connect\<close>

text \<open>
  What the environment answers to one call of \<^verbatim>\<open>connect\<close>: the first constructor
  of \<^verbatim>\<open>AudioContext\<close> throws, \<^verbatim>\<open>getUserMedia\<close> rejects, the promise of
  \<^verbatim>\<open>ai.live.connect\<close> rejects, or the session is returned. A failure carries
  \<^verbatim>\<open>err.message\<close> when \<^verbatim>\<open>err instanceof Error\<close>. The two \<^verbatim>\<open>await\<close>s of
  \<^verbatim>\<open>connect\<close> are taken in one step.
\<close>

datatype connect_answer =
    ContextFails "string option"
  | MediaFails "string option"
  | SessionFails "string option"
  | SessionOpens

definition connectBegin :: "app_state \<Rightarrow> app_state" where
  "connectBegin s = s\<lparr>status := CONNECTING, error := None\<rparr>"

definition createContexts :: "app_state \<Rightarrow> app_state" where
  "createContexts s =
     (let a = allocated s in
      s\<lparr>allocated := a + 4,
        openContexts := insert a (insert (a + 1) (openContexts s)),
        inputAudioContextRef := Some a, outputAudioContextRef := Some (a + 1),
        inputAnalyserRef := Some (a + 2), outputAnalyserRef := Some (a + 3)\<rparr>)"

definition getUserMedia :: "app_state \<Rightarrow> app_state" where
  "getUserMedia s =
     (let a = allocated s in s\<lparr>allocated := a + 1, liveStreams := insert a (liveStreams s)\<rparr>)"

definition liveConnect :: "app_state \<Rightarrow> app_state" where
  "liveConnect s =
     (let a = allocated s in
      s\<lparr>allocated := a + 1, openSessions := insert a (openSessions s), sessionRef := Some a\<rparr>)"

text \<open>The \<^verbatim>\<open>catch (err)\<close> block of \<^verbatim>\<open>connect\<close>.\<close>

definition connectCatch :: "string option \<Rightarrow> app_state \<Rightarrow> app_state" where
  "connectCatch msg s =
     s\<lparr>error := Some (case msg of Some t \<Rightarrow> t | None \<Rightarrow> ''Gagal memulai sesi''),
       status := DISCONNECTED\<rparr>"

fun connect :: "connect_answer \<Rightarrow> app_state \<Rightarrow> app_state" where
  "connect (ContextFails msg) s = connectCatch msg (connectBegin s)"
| "connect (MediaFails msg) s = connectCatch msg (createContexts (connectBegin s))"
| "connect (SessionFails msg) s =
     connectCatch msg (getUserMedia (createContexts (connectBegin s)))"
| "connect SessionOpens s = liveConnect (getUserMedia (createContexts (connectBegin s)))"

subsection \<open>onmessage\<close>

text \<open>The transcription branch: the output transcription first, the input one only in
  its absence.\<close>

definition onTranscription :: "LiveServerMessage \<Rightarrow> app_state \<Rightarrow> app_state" where
  "onTranscription m s =
     (case outputTranscription m of
        Some t \<Rightarrow> s\<lparr>currentOutput := currentOutput s @ orEmpty t\<rparr>
      | None \<Rightarrow>
          (case inputTranscription m of
             Some t \<Rightarrow>
               (let text = trim (replaceNoise (orEmpty t)) in
                if text \<noteq> [] then s\<lparr>currentInput := currentInput s @ text\<rparr> else s)
           | None \<Rightarrow> s))"

definition isCorrection :: "string \<Rightarrow> bool" where
  "isCorrection fullOut =
     (includes_str (toLowerCase fullOut) ''correction:''
      \<or> includes_str (toLowerCase fullOut) ''tip:'')"

text \<open>
  The turn-complete branch gives \<^verbatim>\<open>setCurrentInput\<close> and \<^verbatim>\<open>setCurrentOutput\<close> an
  updater that calls \<^verbatim>\<open>setMessages\<close>, so a message is appended each time React runs
  the updater. React runs an updater at least once and may run it again with the same
  previous state (its strict mode does so in development); how often is not in the hands
  of the component. \<open>Runs r rs\<close> stands for the runs of one updater: the first run
  \<open>r\<close> and the further runs \<open>rs\<close>, each given by the two values that
  \<^verbatim>\<open>Date.now()\<close> returns in it, the first for the \<^verbatim>\<open>id\<close> and the second for the
  \<^verbatim>\<open>timestamp\<close>.
\<close>

datatype runs = Runs "nat \<times> nat" "(nat \<times> nat) list"

fun allRuns :: "runs \<Rightarrow> (nat \<times> nat) list" where
  "allRuns (Runs r rs) = r # rs"

text \<open>The message that one run of the updater of \<^verbatim>\<open>setCurrentInput\<close> appends.\<close>

fun userMessage :: "string \<Rightarrow> nat \<times> nat \<Rightarrow> Message" where
  "userMessage fullIn (idNow, stampNow) =
     \<lparr>msg_id = toString idNow @ ''-in'', msg_role = User, msg_text = fullIn,
      msg_type = Chat, msg_timestamp = stampNow\<rparr>"

text \<open>The message that one run of the updater of \<^verbatim>\<open>setCurrentOutput\<close> appends.\<close>

fun modelMessage :: "string \<Rightarrow> nat \<times> nat \<Rightarrow> Message" where
  "modelMessage fullOut (idNow, stampNow) =
     \<lparr>msg_id = toString idNow @ ''-out'', msg_role = Model, msg_text = fullOut,
      msg_type = (if isCorrection fullOut then Correction else Chat),
      msg_timestamp = stampNow\<rparr>"

text \<open>The updater of \<^verbatim>\<open>setCurrentInput\<close>, with its runs: every run sees the same
  buffer and appends its message if the buffer does not trim to the empty string; the
  buffer becomes empty.\<close>

definition finalizeInput :: "runs \<Rightarrow> app_state \<Rightarrow> app_state" where
  "finalizeInput inRuns s =
     (let fullIn = currentInput s;
          s1 = (if trim fullIn \<noteq> []
                then s\<lparr>messages := messages s @ map (userMessage fullIn) (allRuns inRuns)\<rparr>
                else s)
      in s1\<lparr>currentInput := []\<rparr>)"

text \<open>The updater of \<^verbatim>\<open>setCurrentOutput\<close>, with its runs.\<close>

definition finalizeOutput :: "runs \<Rightarrow> app_state \<Rightarrow> app_state" where
  "finalizeOutput outRuns s =
     (let fullOut = currentOutput s;
          s1 = (if trim fullOut \<noteq> []
                then s\<lparr>messages := messages s @ map (modelMessage fullOut) (allRuns outRuns)\<rparr>
                else s)
      in s1\<lparr>currentOutput := []\<rparr>)"

definition onTurnComplete ::
  "runs \<Rightarrow> runs \<Rightarrow> LiveServerMessage \<Rightarrow> app_state \<Rightarrow> app_state" where
  "onTurnComplete inRuns outRuns m s =
     (if turnComplete m then finalizeOutput outRuns (finalizeInput inRuns s) else s)"

definition onInterrupted :: "LiveServerMessage \<Rightarrow> app_state \<Rightarrow> app_state" where
  "onInterrupted m s =
     (if interrupted m then (stopAll s)\<lparr>sources := [], nextStartTime := 0\<rparr> else s)"

text \<open>\<^verbatim>\<open>Set.prototype.add\<close>.\<close>

definition set_add :: "nat \<Rightarrow> nat list \<Rightarrow> nat list" where
  "set_add h xs = (if h \<in> set xs then xs else xs @ [h])"

text \<open>
  The audio branch. \<open>decodeAudioData\<close> stands for
  \<^verbatim>\<open>decodeAudioData(decodeFromBase64(base64Audio), audioCtx, OUTPUT_SAMPLE_RATE, 1)\<close>
  of \<^verbatim>\<open>services/audioUtils\<close>: it throws or gives a buffer, of which the handler reads
  the duration; \<open>clock\<close> is \<^verbatim>\<open>audioCtx.currentTime\<close>.
\<close>

definition onAudio ::
  "(string \<Rightarrow> exn + real) \<Rightarrow> real \<Rightarrow> string \<Rightarrow> app_state \<Rightarrow> outcome" where
  "onAudio decodeAudioData clock b64 s =
     (let s1 = s\<lparr>nextStartTime := max (nextStartTime s) clock\<rparr> in
      case decodeAudioData b64 of
        Inl e \<Rightarrow> Threw e s1
      | Inr duration \<Rightarrow>
          (let source = allocated s1;
               s2 = s1\<lparr>allocated := source + 1,
                       started := started s1 @ [(source, nextStartTime s1, duration)]\<rparr>;
               s3 = s2\<lparr>nextStartTime := nextStartTime s2 + duration\<rparr>
           in Completed (s3\<lparr>sources := set_add source (sources s3)\<rparr>)))"

text \<open>The whole handler; \<open>inRuns\<close> and \<open>outRuns\<close> are the runs of the two updaters
  of the turn-complete branch.\<close>

definition onmessage ::
  "(string \<Rightarrow> exn + real) \<Rightarrow> real \<Rightarrow> runs \<Rightarrow> runs \<Rightarrow> LiveServerMessage \<Rightarrow> app_state
     \<Rightarrow> outcome" where
  "onmessage decodeAudioData clock inRuns outRuns m s =
     (let s1 = onTurnComplete inRuns outRuns m (onTranscription m s) in
      case base64Audio m of
        None \<Rightarrow> Completed (onInterrupted m s1)
      | Some b64 \<Rightarrow>
          if b64 = [] then Completed (onInterrupted m s1)
          else
            (case outputAudioContextRef s1 of
               None \<Rightarrow> Completed s1
             | Some audioCtx \<Rightarrow>
                 (case onAudio decodeAudioData clock b64 s1 of
                    Threw e s2 \<Rightarrow> Threw e s2
                  | Completed s2 \<Rightarrow> Completed (onInterrupted m s2))))"

text \<open>The listener of a source's \<^verbatim>\<open>ended\<close> event.\<close>

definition onEnded :: "nat \<Rightarrow> app_state \<Rightarrow> app_state" where
  "onEnded source s = s\<lparr>sources := removeAll source (sources s), ended := insert source (ended s)\<rparr>"

subsection \<open>The component as a machine\<close>

text \<open>The effect on \<^verbatim>\<open>currentOutput\<close> that moves the tense indicator; it runs after a
  render in which \<^verbatim>\<open>currentOutput\<close> has changed.\<close>

definition tenseEffect :: "app_state \<Rightarrow> app_state" where
  "tenseEffect s =
     (if currentOutput s \<noteq> [] then
        (let lower = toLowerCase (currentOutput s) in
         if includes_str lower ''yesterday'' \<or> includes_str lower ''happened''
            \<or> includes_str lower ''was it'' \<or> includes_str lower ''did you''
         then s\<lparr>currentTense := Past\<rparr>
         else if includes_str lower ''tomorrow'' \<or> includes_str lower ''future''
            \<or> includes_str lower ''will you'' \<or> includes_str lower ''going to''
         then s\<lparr>currentTense := Future\<rparr>
         else s)
      else s)"

definition render :: "app_state \<Rightarrow> app_state \<Rightarrow> app_state" where
  "render prev s = (if currentOutput s \<noteq> currentOutput prev then tenseEffect s else s)"

datatype event =
    Click connect_answer
  | Onopen
  | Onmessage real runs runs LiveServerMessage
  | Onerror
  | Onclose
  | Ended nat

fun handle :: "(string \<Rightarrow> exn + real) \<Rightarrow> event \<Rightarrow> app_state \<Rightarrow> app_state" where
  "handle dec (Click answer) s =
     (if status s = CONNECTED then final (disconnect s) else connect answer s)"
| "handle dec Onopen s = s\<lparr>status := CONNECTED\<rparr>"
| "handle dec (Onmessage clock inRuns outRuns m) s = final (onmessage dec clock inRuns outRuns m s)"
| "handle dec Onerror s =
     final (disconnect (s\<lparr>error := Some ''Koneksi terputus. Silakan coba lagi.''\<rparr>))"
| "handle dec Onclose s = final (disconnect s)"
| "handle dec (Ended source) s = onEnded source s"

definition step :: "(string \<Rightarrow> exn + real) \<Rightarrow> event \<Rightarrow> app_state \<Rightarrow> app_state" where
  "step dec ev s = render s (handle dec ev s)"

fun run :: "(string \<Rightarrow> exn + real) \<Rightarrow> event list \<Rightarrow> app_state \<Rightarrow> app_state" where
  "run dec [] s = s"
| "run dec (ev # evs) s = run dec evs (step dec ev s)"

subsection \<open>services/audioUtils: the sample format\<close>

text \<open>Modelled from the spec: \<^verbatim>\<open>services/audioUtils\<close> is not among the sources. The
  maximum signed 16-bit magnitude, by which the encoder scales and the decoder divides:
  the largest value of a signed 16-bit integer, so that every scaled sample can be
  packed.\<close>

definition int16Max :: int where
  "int16Max = 32767"

text \<open>Modelled from the spec: the output sample rate (24 kHz) of the decoder of
  \<^verbatim>\<open>services/audioUtils\<close>.\<close>

definition outputRate :: real where
  "outputRate = 24000"

text \<open>Modelled from the spec: the encoder (\<^verbatim>\<open>createPcmBlob\<close> of
  \<^verbatim>\<open>services/audioUtils\<close>) clamps each sample to the interval from -1 to 1.\<close>

definition clampSample :: "real \<Rightarrow> real" where
  "clampSample x = max (- 1) (min 1 x)"

text \<open>Modelled from the spec: the encoder (\<^verbatim>\<open>createPcmBlob\<close> of
  \<^verbatim>\<open>services/audioUtils\<close>) scales the clamped sample by the maximum magnitude and
  rounds to the nearest integer, a half upwards.\<close>

definition quantize :: "real \<Rightarrow> int" where
  "quantize x = round (clampSample x * of_int int16Max)"

text \<open>Modelled from the spec: the encoder (\<^verbatim>\<open>createPcmBlob\<close> of
  \<^verbatim>\<open>services/audioUtils\<close>) packs a signed 16-bit integer as two bytes, the low one
  first.\<close>

definition packInt16 :: "int \<Rightarrow> 8 word list" where
  "packInt16 k = (let w = (word_of_int k :: 16 word) in [ucast w, ucast (drop_bit 8 w)])"

text \<open>Modelled from the spec: \<^verbatim>\<open>createPcmBlob\<close>, the Capture Encoder, from a block of
  samples to the contiguous byte buffer of the frame.\<close>

definition createPcmBlob :: "real list \<Rightarrow> 8 word list" where
  "createPcmBlob samples = concat (map (\<lambda>x. packInt16 (quantize x)) samples)"

text \<open>Modelled from the spec: the decoder (\<^verbatim>\<open>decodeAudioData\<close> of
  \<^verbatim>\<open>services/audioUtils\<close>) reads the bytes as little-endian signed 16-bit integers;
  a buffer cut in the middle of a sample fails with \<open>DecodeError\<close>.\<close>

fun unpackInt16 :: "8 word list \<Rightarrow> exn + int list" where
  "unpackInt16 [] = Inr []"
| "unpackInt16 [b] = Inl DecodeError"
| "unpackInt16 (lo # hi # rest) =
     (case unpackInt16 rest of
        Inl e \<Rightarrow> Inl e
      | Inr ks \<Rightarrow> Inr (sint (word_cat hi lo :: 16 word) # ks))"

text \<open>Modelled from the spec: the decoder (\<^verbatim>\<open>decodeAudioData\<close> of
  \<^verbatim>\<open>services/audioUtils\<close>) normalizes each integer by dividing by the maximum
  magnitude.\<close>

definition normalizeSample :: "int \<Rightarrow> real" where
  "normalizeSample k = of_int k / of_int int16Max"

text \<open>Modelled from the spec: the DecodedChunk that \<^verbatim>\<open>decodeAudioData\<close> of
  \<^verbatim>\<open>services/audioUtils\<close> gives, its samples and its duration.\<close>

record DecodedChunk =
  chunk_samples :: "real list"
  chunk_duration :: real

text \<open>Modelled from the spec: the Ingest Decoder (\<^verbatim>\<open>decodeAudioData\<close> of
  \<^verbatim>\<open>services/audioUtils\<close>) on raw bytes; the duration is the sample count over the
  output rate.\<close>

definition decodeChunk :: "8 word list \<Rightarrow> exn + DecodedChunk" where
  "decodeChunk bytes =
     (case unpackInt16 bytes of
        Inl e \<Rightarrow> Inl e
      | Inr ks \<Rightarrow>
          Inr \<lparr>chunk_samples = map normalizeSample ks,
               chunk_duration = of_nat (length ks) / outputRate\<rparr>)"

subsection \<open>Notions the properties are stated with\<close>


text \<open>An updater that React runs once, both readings of the clock being \<open>n\<close>.\<close>

definition once :: "nat \<Rightarrow> runs" where
  "once n = Runs (n, n) []"

text \<open>Messages that carry one thing only.\<close>

definition emptyMessage :: LiveServerMessage where
  "emptyMessage =
     \<lparr>outputTranscription = None, inputTranscription = None, turnComplete = False,
      parts = None, interrupted = False\<rparr>"

fun fragmentMessage :: "Role \<Rightarrow> string \<Rightarrow> LiveServerMessage" where
  "fragmentMessage User t = emptyMessage\<lparr>inputTranscription := Some (Some t)\<rparr>"
| "fragmentMessage Model t = emptyMessage\<lparr>outputTranscription := Some (Some t)\<rparr>"

definition turnCompleteMessage :: LiveServerMessage where
  "turnCompleteMessage = emptyMessage\<lparr>turnComplete := True\<rparr>"

definition audioMessage :: "string \<Rightarrow> LiveServerMessage" where
  "audioMessage b64 = emptyMessage\<lparr>parts := Some [Some b64]\<rparr>"


text \<open>Modelled from the spec: the alphabet of base64, the transport encoding of a
  chunk (\<^verbatim>\<open>decodeFromBase64\<close> of \<^verbatim>\<open>services/audioUtils\<close> is not among the
  sources).\<close>

definition isBase64Char :: "char \<Rightarrow> bool" where
  "isBase64Char c =
     (let n = code_unit c in
      (65 \<le> n \<and> n \<le> 90) \<or> (97 \<le> n \<and> n \<le> 122) \<or> (48 \<le> n \<and> n \<le> 57)
      \<or> n = 43 \<or> n = 47)"

text \<open>Modelled from the spec: a decoder for concrete runs, in place of
  \<^verbatim>\<open>decodeAudioData(decodeFromBase64(...))\<close> of \<^verbatim>\<open>services/audioUtils\<close>, which is
  not among the sources. It gives the duration only. The text before the padding must be
  base64; four characters are three bytes, two bytes are a sample, \<open>outputRate\<close>
  samples are a second; malformed text, and text that ends inside a sample, fail with
  \<open>DecodeError\<close>.\<close>

definition decodeBase64Pcm :: "string \<Rightarrow> exn + real" where
  "decodeBase64Pcm b64 =
     (let body = takeWhile (\<lambda>c. c \<noteq> CHR ''='') b64;
          padding = dropWhile (\<lambda>c. c \<noteq> CHR ''='') b64;
          bytes = (length body * 3) div 4
      in if \<not> list_all isBase64Char body \<or> \<not> list_all (\<lambda>c. c = CHR ''='') padding
            \<or> length body mod 4 = 1 \<or> bytes mod 2 = 1
         then Inl DecodeError
         else Inr (of_nat (bytes div 2) / outputRate))"

text \<open>The spec's words for the classification: the text contains a marker without regard
  to case when a part of it, put in lower case, is the marker.\<close>

definition containsIgnoringCase :: "string \<Rightarrow> string \<Rightarrow> bool" where
  "containsIgnoringCase t marker =
     (\<exists>pre part post. t = pre @ part @ post \<and> toLowerCase part = marker)"


section \<open>Properties\<close>

subsection \<open>The sample format\<close>

lemma word_cat_pack:
  "word_cat (ucast (drop_bit 8 w) :: 8 word) (ucast w :: 8 word) = (w :: 16 word)"
  by (rule bit_word_eqI) (auto simp: bit_simps)

lemma sint_word16:
  "- 32768 \<le> k \<Longrightarrow> k \<le> 32767 \<Longrightarrow> sint (word_of_int k :: 16 word) = k"
  by (simp add: signed_of_int signed_take_bit_int_eq_self)

lemma clampSample_range: "- 1 \<le> clampSample x \<and> clampSample x \<le> 1"
  by (simp add: clampSample_def)

lemma quantize_range: "- 32767 \<le> quantize x \<and> quantize x \<le> 32767"
proof -
  let ?y = "clampSample x * 32767"
  have lo: "(- 32767 :: real) \<le> ?y" and hi: "?y \<le> 32767"
    using clampSample_range [of x] by auto
  have "round (- 32767 :: real) \<le> round ?y" using lo by (rule round_mono)
  moreover have "round ?y \<le> round (32767 :: real)" using hi by (rule round_mono)
  ultimately show ?thesis by (simp add: quantize_def int16Max_def)
qed

lemma unpack_pack:
  "unpackInt16 (packInt16 (quantize x) @ rest) =
     (case unpackInt16 rest of Inl e \<Rightarrow> Inl e | Inr ks \<Rightarrow> Inr (quantize x # ks))"
proof -
  have "sint (word_of_int (quantize x) :: 16 word) = quantize x"
    using quantize_range [of x] by (intro sint_word16) auto
  then show ?thesis by (simp add: packInt16_def Let_def word_cat_pack split: sum.splits)
qed

lemma unpack_createPcmBlob: "unpackInt16 (createPcmBlob xs) = Inr (map quantize xs)"
  by (induction xs) (simp_all add: createPcmBlob_def unpack_pack)

lemma normalize_quantize:
  assumes "- 1 \<le> x" "x \<le> 1"
  shows "\<bar>normalizeSample (quantize x) - x\<bar> \<le> 1 / 65534"
proof -
  have c: "clampSample x = x" using assms by (simp add: clampSample_def)
  define r :: real where "r = of_int (round (x * 32767))"
  have half: "\<bar>r - x * 32767\<bar> \<le> 1 / 2"
    unfolding r_def by (rule of_int_round_abs_le)
  have "r / 32767 - x = (r - x * 32767) / 32767" by (simp add: field_simps)
  then have "\<bar>r / 32767 - x\<bar> = \<bar>r - x * 32767\<bar> / 32767"
    by (simp only: abs_divide abs_numeral)
  also have "\<dots> \<le> (1 / 2) / 32767" using half by (simp add: divide_right_mono)
  also have "\<dots> = 1 / 65534" by simp
  finally show ?thesis by (simp add: normalizeSample_def quantize_def c int16Max_def r_def)
qed

text \<open>
  C9. Round-trip quantization: a block of samples, each between -1 and 1, is encoded
  (clamped, scaled by the maximum magnitude, rounded, packed low byte first) and decoded
  again (unpacked as signed 16-bit integers, divided by the maximum magnitude); the
  decoder succeeds, gives as many samples as went in, and each one lies within 1/32768
  of the sample it came from (within 1/65534, in fact: half a step of the quantizer).
  The arithmetic is that of the reals.
\<close>

theorem roundtrip_quantization:
  assumes "\<forall>x \<in> set xs. - 1 \<le> x \<and> x \<le> 1"
  shows "\<exists>c. decodeChunk (createPcmBlob xs) = Inr c
           \<and> length (chunk_samples c) = length xs
           \<and> (\<forall>i < length xs. \<bar>chunk_samples c ! i - xs ! i\<bar> \<le> 1 / 32768)"
proof -
  have "\<bar>map normalizeSample (map quantize xs) ! i - xs ! i\<bar> \<le> 1 / 32768"
    if "i < length xs" for i
  proof -
    have "xs ! i \<in> set xs" using that by simp
    then have "- 1 \<le> xs ! i" "xs ! i \<le> 1" using assms by auto
    then have "\<bar>normalizeSample (quantize (xs ! i)) - xs ! i\<bar> \<le> 1 / 65534"
      by (rule normalize_quantize)
    also have "(1 / 65534 :: real) \<le> 1 / 32768" by simp
    finally show ?thesis using that by simp
  qed
  then show ?thesis by (simp add: decodeChunk_def unpack_createPcmBlob)
qed

theorem roundtrip_quantization_witness:
  "- 1 \<le> (1 / 2 :: real) \<and> (1 / 2 :: real) \<le> 1
   \<and> (\<exists>c. decodeChunk (createPcmBlob [1 / 2]) = Inr c
          \<and> length (chunk_samples c) = 1
          \<and> \<bar>chunk_samples c ! 0 - 1 / 2\<bar> \<le> 1 / 32768)"
  using roundtrip_quantization [of "[1 / 2]"] by simp

subsection \<open>Stopping the sources, teardown\<close>

lemma fold_stop:
  "fold (\<lambda>h. tryCatch (source_stop h)) hs s =
     s\<lparr>stopped := stopped s \<union> (set hs \<inter> fst ` set (started s))\<rparr>"
proof (induction hs arbitrary: s)
  case Nil
  show ?case by simp
next
  case (Cons h hs)
  define s' where "s' = tryCatch (source_stop h) s"
  have s': "s' = s\<lparr>stopped :=
      (if h \<in> fst ` set (started s) then insert h (stopped s) else stopped s)\<rparr>"
    by (simp add: s'_def tryCatch_def source_stop_def)
  have sets: "stopped s' \<union> (set hs \<inter> fst ` set (started s')) =
              stopped s \<union> (set (h # hs) \<inter> fst ` set (started s))"
    by (auto simp: s')
  have "fold (\<lambda>h. tryCatch (source_stop h)) (h # hs) s =
        fold (\<lambda>h. tryCatch (source_stop h)) hs s'"
    by (simp add: s'_def)
  also have "\<dots> = s'\<lparr>stopped := stopped s' \<union> (set hs \<inter> fst ` set (started s'))\<rparr>"
    by (rule Cons.IH)
  also have "\<dots> = s\<lparr>stopped := stopped s \<union> (set (h # hs) \<inter> fst ` set (started s))\<rparr>"
    unfolding sets by (simp add: s')
  finally show ?case .
qed

lemma stopAll_eq:
  "stopAll s = s\<lparr>stopped := stopped s \<union> (set (sources s) \<inter> fst ` set (started s))\<rparr>"
  by (simp add: stopAll_def fold_stop)

lemma disconnect_torn:
  "disconnect s = Completed s1 \<Longrightarrow>
     status s1 = DISCONNECTED \<and> sources s1 = [] \<and> nextStartTime s1 = 0
     \<and> currentInput s1 = [] \<and> currentOutput s1 = [] \<and> currentTense s1 = Present
     \<and> sessionRef s1 = None \<and> inputAudioContextRef s1 = None
     \<and> outputAudioContextRef s1 = None
     \<and> inputAnalyserRef s1 = None \<and> outputAnalyserRef s1 = None"
  by (auto simp: disconnect_def closeContexts_def closeSession_def stopAll_eq Let_def
        context_close_def tryCatch_def session_close_def split: option.splits)

lemma disconnect_fixed:
  assumes "status s = DISCONNECTED" "sources s = []" "nextStartTime s = 0"
    "currentInput s = []" "currentOutput s = []" "currentTense s = Present"
    "sessionRef s = None" "inputAudioContextRef s = None" "outputAudioContextRef s = None"
    "inputAnalyserRef s = None" "outputAnalyserRef s = None"
  shows "disconnect s = Completed s"
  using assms
  by (cases s) (simp add: disconnect_def closeContexts_def closeSession_def stopAll_eq Let_def)

text \<open>
  C4. Teardown is idempotent and does not raise: from any state, \<open>disconnect\<close> runs
  to its end; run again on the state it leaves, it runs to its end once more and leaves
  that state as it is. In that state the status is DISCONNECTED, the set of sources is
  empty, the cursor is 0, and both transcript buffers are empty. This holds also when
  the session is already closed or a source cannot be stopped, since those calls are
  guarded.
\<close>

theorem teardown_idempotent:
  "\<exists>s1. disconnect s = Completed s1 \<and> disconnect s1 = Completed s1
      \<and> status s1 = DISCONNECTED \<and> sources s1 = [] \<and> nextStartTime s1 = 0
      \<and> currentInput s1 = [] \<and> currentOutput s1 = []"
proof -
  obtain s1 where s1: "disconnect s = Completed s1"
    by (simp add: disconnect_def Let_def)
  note t = disconnect_torn [OF s1]
  have "disconnect s1 = Completed s1"
    using t by (intro disconnect_fixed) simp_all
  with s1 t show ?thesis by blast
qed

theorem teardown_idempotent_witness:
  "\<exists>s1. disconnect (run decodeBase64Pcm
            [Click SessionOpens, Onopen, Onmessage 0 (once 0) (once 0) (audioMessage ''AAAAAAAA'')] initial)
          = Completed s1
      \<and> disconnect s1 = Completed s1
      \<and> status s1 = DISCONNECTED \<and> sources s1 = [] \<and> nextStartTime s1 = 0
      \<and> currentInput s1 = [] \<and> currentOutput s1 = []"
  by (rule teardown_idempotent)

subsection \<open>The audio branch\<close>

lemma transcript_frame:
  "sources (onTurnComplete inRuns outRuns m (onTranscription m s)) = sources s"
  "nextStartTime (onTurnComplete inRuns outRuns m (onTranscription m s)) = nextStartTime s"
  "started (onTurnComplete inRuns outRuns m (onTranscription m s)) = started s"
  "stopped (onTurnComplete inRuns outRuns m (onTranscription m s)) = stopped s"
  "ended (onTurnComplete inRuns outRuns m (onTranscription m s)) = ended s"
  "allocated (onTurnComplete inRuns outRuns m (onTranscription m s)) = allocated s"
  "outputAudioContextRef (onTurnComplete inRuns outRuns m (onTranscription m s)) = outputAudioContextRef s"
  by (simp_all add: onTurnComplete_def onTranscription_def finalizeInput_def finalizeOutput_def
        Let_def split: option.splits)

text \<open>
  C1, as the code has it. When the decoder rejects the chunk of a message (the output
  context being open), the handler throws at that point. What it leaves is the state
  after the transcript part of the message with the cursor raised to the output clock
  if it was behind it: the cursor is \<open>max cursor clock\<close>, not advanced by any duration;
  the set of sources, the started, stopped and ended sources are as before; a later
  chunk at a later clock time starts where it would have started without the failed
  one; and the component goes on with the next event from that state.
\<close>

theorem decode_failure_isolated:
  assumes "base64Audio m = Some b64" and "b64 \<noteq> []"
    and "outputAudioContextRef s = Some ctx" and "dec b64 = Inl e"
  shows "let s' = final (onmessage dec clock inRuns outRuns m s) in
           raised (onmessage dec clock inRuns outRuns m s) = Some e
         \<and> s' = (onTurnComplete inRuns outRuns m (onTranscription m s))
                  \<lparr>nextStartTime := max (nextStartTime s) clock\<rparr>
         \<and> nextStartTime s' = max (nextStartTime s) clock
         \<and> sources s' = sources s \<and> started s' = started s
         \<and> stopped s' = stopped s \<and> ended s' = ended s \<and> allocated s' = allocated s
         \<and> (\<forall>t \<ge> clock. max (nextStartTime s') t = max (nextStartTime s) t)
         \<and> run dec (Onmessage clock inRuns outRuns m # evs) s = run dec evs (render s s')"
proof -
  let ?s1 = "onTurnComplete inRuns outRuns m (onTranscription m s)"
  have r: "onmessage dec clock inRuns outRuns m s =
           Threw e (?s1\<lparr>nextStartTime := max (nextStartTime s) clock\<rparr>)"
    using assms by (simp add: onmessage_def onAudio_def Let_def transcript_frame)
  have m: "\<forall>t \<ge> clock. max (max (nextStartTime s) clock) t = max (nextStartTime s) t"
    by auto
  show ?thesis
    unfolding r by (simp add: transcript_frame step_def r m)
qed

theorem decode_failure_isolated_witness:
  "base64Audio (audioMessage ''!!!!'') = Some ''!!!!'' \<and> ''!!!!'' \<noteq> []
   \<and> outputAudioContextRef (connect SessionOpens initial) = Some 1
   \<and> decodeBase64Pcm ''!!!!'' = Inl DecodeError
   \<and> raised (onmessage decodeBase64Pcm 5 (once 0) (once 0) (audioMessage ''!!!!'') (connect SessionOpens initial))
       = Some DecodeError
   \<and> nextStartTime (final (onmessage decodeBase64Pcm 5 (once 0) (once 0) (audioMessage ''!!!!'')
        (connect SessionOpens initial))) = max (nextStartTime (connect SessionOpens initial)) 5
   \<and> sources (final (onmessage decodeBase64Pcm 5 (once 0) (once 0) (audioMessage ''!!!!'')
        (connect SessionOpens initial))) = sources (connect SessionOpens initial)"
proof -
  have h1: "base64Audio (audioMessage ''!!!!'') = Some ''!!!!''" by code_simp
  have h2: "''!!!!'' \<noteq> []" by simp
  have h3: "outputAudioContextRef (connect SessionOpens initial) = Some 1" by code_simp
  have h4: "decodeBase64Pcm ''!!!!'' = Inl DecodeError" by code_simp
  from decode_failure_isolated
         [where dec = decodeBase64Pcm and clock = 5 and inRuns = "once 0" and outRuns = "once 0" and evs = "[]",
          OF h1 h2 h3 h4, unfolded Let_def]
       h1 h2 h3 h4
  show ?thesis by blast
qed

text \<open>
  C1, as the claim has it, fails: after \<open>connect\<close> the cursor is 0; a chunk that the
  decoder rejects, arriving when the output clock reads 5, leaves the cursor at 5.
\<close>

theorem decode_failure_cursor_counterexample:
  "decodeBase64Pcm ''!!!!'' = Inl DecodeError
   \<and> nextStartTime (connect SessionOpens initial) = 0
   \<and> nextStartTime (final (onmessage decodeBase64Pcm 5 (once 0) (once 0) (audioMessage ''!!!!'')
        (connect SessionOpens initial))) = 5"
  by code_simp



subsection \<open>Every reachable state is consistent; interruption\<close>




















subsection \<open>A failed connect\<close>

text \<open>
  C5 fails on the code. When \<^verbatim>\<open>getUserMedia\<close> rejects, the \<^verbatim>\<open>catch\<close> block of
  \<open>connect\<close> sets the error text and the status DISCONNECTED and nothing else: both
  audio contexts stay open and stay in their refs, where \<open>disconnect\<close> would have
  closed them; a second failed attempt leaves four contexts open. When the session
  promise rejects, the microphone stream stays live as well.
\<close>

theorem connect_failure_leaves_resources:
  "status (connect (MediaFails None) initial) = DISCONNECTED
   \<and> error (connect (MediaFails None) initial) = Some ''Gagal memulai sesi''
   \<and> inputAudioContextRef (connect (MediaFails None) initial) = Some 0
   \<and> outputAudioContextRef (connect (MediaFails None) initial) = Some 1
   \<and> openContexts (connect (MediaFails None) initial) = {0, 1}
   \<and> openContexts (final (disconnect (connect (MediaFails None) initial))) = {}
   \<and> openContexts (connect (MediaFails None) (connect (MediaFails None) initial)) = {0, 1, 4, 5}
   \<and> openContexts (connect (SessionFails None) initial) = {0, 1}
   \<and> liveStreams (connect (SessionFails None) initial) = {4}"
  by code_simp

subsection \<open>Transcript fragments\<close>

lemma transcript_only:
  "currentInput (final (onmessage dec clock inRuns outRuns m s)) =
     currentInput (onTurnComplete inRuns outRuns m (onTranscription m s))"
  "currentOutput (final (onmessage dec clock inRuns outRuns m s)) =
     currentOutput (onTurnComplete inRuns outRuns m (onTranscription m s))"
  "messages (final (onmessage dec clock inRuns outRuns m s)) =
     messages (onTurnComplete inRuns outRuns m (onTranscription m s))"
  by (simp_all add: onmessage_def onAudio_def onInterrupted_def stopAll_eq Let_def
        split: option.splits sum.splits)

text \<open>
  C6, as the code has it. A message without the turn-complete marker changes the buffers
  as follows. If it carries an output transcription, its text (the empty string when
  absent) is appended verbatim to the model's buffer, and the user's buffer is left as it
  is, whatever else the message carries. Otherwise, if it carries an input transcription,
  the text is stripped of every \<^verbatim>\<open><noise>\<close> and \<^verbatim>\<open>[noise]\<close> (letters in either
  case) and then trimmed of leading and trailing white space, and what remains is appended
  to the user's buffer. Otherwise both buffers are left as they are.
\<close>

theorem fragment_appended:
  assumes "\<not> turnComplete m"
  shows "let s' = final (onmessage dec clock inRuns outRuns m s) in
           (\<forall>t. outputTranscription m = Some t \<longrightarrow>
                currentOutput s' = currentOutput s @ orEmpty t \<and> currentInput s' = currentInput s)
         \<and> (outputTranscription m = None \<longrightarrow>
                currentOutput s' = currentOutput s
              \<and> (\<forall>t. inputTranscription m = Some t \<longrightarrow>
                     currentInput s' = currentInput s @ trim (replaceNoise (orEmpty t)))
              \<and> (inputTranscription m = None \<longrightarrow> currentInput s' = currentInput s))"
  using assms
  by (simp add: transcript_only onTurnComplete_def onTranscription_def Let_def
        split: option.splits)

theorem fragment_appended_witness:
  "\<not> turnComplete (fragmentMessage User '' [Noise] hello  '')
   \<and> outputTranscription (fragmentMessage User '' [Noise] hello  '') = None
   \<and> inputTranscription (fragmentMessage User '' [Noise] hello  '')
       = Some (Some '' [Noise] hello  '')
   \<and> trim (replaceNoise (orEmpty (Some '' [Noise] hello  ''))) = ''hello''
   \<and> currentInput (final (onmessage decodeBase64Pcm 0 (once 0) (once 0)
         (fragmentMessage User '' [Noise] hello  '') initial))
       = currentInput initial @ trim (replaceNoise (orEmpty (Some '' [Noise] hello  '')))"
proof -
  have h: "\<not> turnComplete (fragmentMessage User '' [Noise] hello  '')" by code_simp
  have o: "outputTranscription (fragmentMessage User '' [Noise] hello  '') = None"
    by code_simp
  have i: "inputTranscription (fragmentMessage User '' [Noise] hello  '')
           = Some (Some '' [Noise] hello  '')"
    by code_simp
  have t: "trim (replaceNoise (orEmpty (Some '' [Noise] hello  ''))) = ''hello''"
    by code_simp
  from fragment_appended
         [where dec = decodeBase64Pcm and clock = 0 and inRuns = "once 0" and outRuns = "once 0" and s = initial,
          OF h, unfolded Let_def]
       h o i t
  show ?thesis by blast
qed

text \<open>
  C6, as the claim has it, fails: the user fragments \<open>Hello \<close> and \<open>world\<close> leave
  \<open>Helloworld\<close> in the buffer; the space that ends the first fragment is removed.
\<close>

theorem fragment_verbatim_counterexample:
  "currentInput (run decodeBase64Pcm
      [Onmessage 0 (once 0) (once 0) (fragmentMessage User ''Hello ''),
       Onmessage 0 (once 0) (once 0) (fragmentMessage User ''world'')] initial) = ''Helloworld''"
  by code_simp

lemma includes_str_iff: "includes_str s sub \<longleftrightarrow> (\<exists>pre post. s = pre @ sub @ post)"
proof (induction s)
  case Nil
  show ?case by auto
next
  case (Cons c cs)
  have a: "startsWith (c # cs) sub \<longleftrightarrow> (\<exists>post. c # cs = sub @ post)"
    unfolding startsWith_def
    by (metis append_eq_conv_conj append_take_drop_id)
  have b: "(\<exists>pre post. c # cs = pre @ sub @ post) \<longleftrightarrow>
           (\<exists>post. c # cs = sub @ post) \<or> (\<exists>pre post. cs = pre @ sub @ post)"
  proof
    assume "\<exists>pre post. c # cs = pre @ sub @ post"
    then obtain pre post where e: "c # cs = pre @ sub @ post" by blast
    show "(\<exists>post. c # cs = sub @ post) \<or> (\<exists>pre post. cs = pre @ sub @ post)"
    proof (cases pre)
      case Nil
      then show ?thesis using e by auto
    next
      case (Cons p ps)
      then have "cs = ps @ sub @ post" using e by simp
      then show ?thesis by blast
    qed
  next
    assume "(\<exists>post. c # cs = sub @ post) \<or> (\<exists>pre post. cs = pre @ sub @ post)"
    then show "\<exists>pre post. c # cs = pre @ sub @ post"
    proof
      assume "\<exists>post. c # cs = sub @ post"
      then obtain post where "c # cs = [] @ sub @ post" by auto
      then show ?thesis by blast
    next
      assume "\<exists>pre post. cs = pre @ sub @ post"
      then obtain pre post where "c # cs = (c # pre) @ sub @ post" by auto
      then show ?thesis by blast
    qed
  qed
  show ?case by (simp add: Cons.IH a b)
qed

lemma includes_lower_iff:
  "includes_str (toLowerCase t) marker \<longleftrightarrow> containsIgnoringCase t marker"
proof
  assume "includes_str (toLowerCase t) marker"
  then obtain pre post where "map lower_char t = pre @ marker @ post"
    by (auto simp: includes_str_iff toLowerCase_def)
  then have "\<exists>us vs. t = us @ vs \<and> pre = map lower_char us \<and> marker @ post = map lower_char vs"
    by (simp only: map_eq_append_conv)
  then obtain t1 t2 where t12: "t = t1 @ t2" "marker @ post = map lower_char t2"
    by blast
  from t12(2)
  have "\<exists>us vs. t2 = us @ vs \<and> marker = map lower_char us \<and> post = map lower_char vs"
    by (simp only: append_eq_map_conv)
  then obtain t3 t4 where t34: "t2 = t3 @ t4" "marker = map lower_char t3"
    by blast
  with t12 have "t = t1 @ t3 @ t4 \<and> toLowerCase t3 = marker"
    by (simp add: toLowerCase_def)
  then show "containsIgnoringCase t marker"
    unfolding containsIgnoringCase_def by blast
next
  assume "containsIgnoringCase t marker"
  then obtain pre part post where "t = pre @ part @ post" "toLowerCase part = marker"
    unfolding containsIgnoringCase_def by blast
  then have "toLowerCase t = toLowerCase pre @ marker @ toLowerCase post"
    by (simp add: toLowerCase_def)
  then show "includes_str (toLowerCase t) marker"
    unfolding includes_str_iff by blast
qed

lemma isCorrection_iff:
  "isCorrection t \<longleftrightarrow>
     containsIgnoringCase t ''correction:'' \<or> containsIgnoringCase t ''tip:''"
  by (simp add: isCorrection_def includes_lower_iff)

subsection \<open>Turn completion\<close>

lemma turn_messages:
  assumes "turnComplete m"
  shows "messages (onTurnComplete inRuns outRuns m s1) =
           messages s1
           @ (if trim (currentInput s1) \<noteq> []
              then map (userMessage (currentInput s1)) (allRuns inRuns) else [])
           @ (if trim (currentOutput s1) \<noteq> []
              then map (modelMessage (currentOutput s1)) (allRuns outRuns) else [])"
    and "currentInput (onTurnComplete inRuns outRuns m s1) = []"
    and "currentOutput (onTurnComplete inRuns outRuns m s1) = []"
  using assms
  by (simp_all add: onTurnComplete_def finalizeInput_def finalizeOutput_def Let_def)

lemma transcription_messages: "messages (onTranscription m s) = messages s"
  by (simp add: onTranscription_def Let_def split: option.splits)

lemma message_fields:
  "msg_role (userMessage t r) = User"
  "msg_text (userMessage t r) = t"
  "msg_type (userMessage t r) = Chat"
  "msg_role (modelMessage t r) = Model"
  "msg_text (modelMessage t r) = t"
  "msg_type (modelMessage t r) = (if isCorrection t then Correction else Chat)"
  by (cases r; simp)+

lemma trim_Nil: "trim [] = []"
  by (simp add: trim_def)

lemma render_frame:
  "messages (render b s) = messages s"
  "currentInput (render b s) = currentInput s"
  "currentOutput (render b s) = currentOutput s"
  by (simp_all add: render_def tenseEffect_def Let_def)


lemma model_messages_view:
  "map (\<lambda>x. (msg_role x, msg_text x, msg_type x)) (map (modelMessage t) rs) =
     replicate (length rs) (Model, t, if isCorrection t then Correction else Chat)"
  by (induction rs) (simp_all add: message_fields)

text \<open>
  C7, as the code has it. At a message with the turn-complete marker, the messages
  appended to the history are such that a message of the model has the type
  \<open>Correction\<close> exactly when its text contains \<open>correction:\<close> or \<open>tip:\<close> without
  regard to case, and \<open>Chat\<close> otherwise, whereas a message of the user always has the
  type \<open>Chat\<close>; the text of either is the role's buffer, untrimmed. In particular the
  model fragments \<open>Nice try. \<close> and \<open>Correction: It is called a chair.\<close>, followed by
  turn-complete, give a message of the model with that text and the type
  \<open>Correction\<close> for each run of the updater, one when the updater runs once, and
  nothing else.
\<close>

theorem turn_complete_classification:
  assumes "turnComplete m"
  shows "(\<exists>new. messages (final (onmessage dec clock inRuns outRuns m s)) = messages s @ new
           \<and> (\<forall>x \<in> set new.
                 (msg_role x = User \<longrightarrow>
                    msg_type x = Chat \<and> msg_text x = currentInput (onTranscription m s))
               \<and> (msg_role x = Model \<longrightarrow>
                    msg_text x = currentOutput (onTranscription m s)
                  \<and> (msg_type x = Correction \<longleftrightarrow>
                       containsIgnoringCase (msg_text x) ''correction:''
                       \<or> containsIgnoringCase (msg_text x) ''tip:'')
                  \<and> (msg_type x = Chat \<longleftrightarrow>
                       \<not> (containsIgnoringCase (msg_text x) ''correction:''
                          \<or> containsIgnoringCase (msg_text x) ''tip:'')))))
       \<and> map (\<lambda>x. (msg_role x, msg_text x, msg_type x)) (messages (run dec
            [Onmessage clock inRuns outRuns (fragmentMessage Model ''Nice try. ''),
             Onmessage clock inRuns outRuns
               (fragmentMessage Model ''Correction: It is called a chair.''),
             Onmessage clock inRuns (Runs r rs) turnCompleteMessage] initial))
         = replicate (Suc (length rs))
             (Model, ''Nice try. Correction: It is called a chair.'', Correction)"
proof -
  let ?s1 = "onTranscription m s"
  define new where "new =
      (if trim (currentInput ?s1) \<noteq> []
       then map (userMessage (currentInput ?s1)) (allRuns inRuns) else [])
      @ (if trim (currentOutput ?s1) \<noteq> []
         then map (modelMessage (currentOutput ?s1)) (allRuns outRuns) else [])"
  have msgs: "messages (final (onmessage dec clock inRuns outRuns m s)) = messages s @ new"
    using assms
    by (simp add: transcript_only turn_messages transcription_messages new_def)
  have props: "\<forall>x \<in> set new.
                 (msg_role x = User \<longrightarrow>
                    msg_type x = Chat \<and> msg_text x = currentInput ?s1)
               \<and> (msg_role x = Model \<longrightarrow>
                    msg_text x = currentOutput ?s1
                  \<and> (msg_type x = Correction \<longleftrightarrow>
                       containsIgnoringCase (msg_text x) ''correction:''
                       \<or> containsIgnoringCase (msg_text x) ''tip:'')
                  \<and> (msg_type x = Chat \<longleftrightarrow>
                       \<not> (containsIgnoringCase (msg_text x) ''correction:''
                          \<or> containsIgnoringCase (msg_text x) ''tip:'')))"
    by (auto simp: new_def message_fields isCorrection_iff [symmetric] split: if_splits)
  let ?text = "''Nice try. Correction: It is called a chair.''"
  define mid where "mid = run dec
      [Onmessage clock inRuns outRuns (fragmentMessage Model ''Nice try. ''),
       Onmessage clock inRuns outRuns
         (fragmentMessage Model ''Correction: It is called a chair.'')] initial"
  have mid: "messages mid = []" "currentInput mid = []" "currentOutput mid = ?text"
    unfolding mid_def by code_simp+
  have tx: "trim ?text \<noteq> []" "isCorrection ?text"
    by code_simp+
  have tc: "turnComplete turnCompleteMessage"
    by (simp add: turnCompleteMessage_def)
  have id: "onTranscription turnCompleteMessage mid = mid"
    by (simp add: onTranscription_def turnCompleteMessage_def emptyMessage_def)
  have r3: "run dec
            [Onmessage clock inRuns outRuns (fragmentMessage Model ''Nice try. ''),
             Onmessage clock inRuns outRuns
               (fragmentMessage Model ''Correction: It is called a chair.''),
             Onmessage clock inRuns (Runs r rs) turnCompleteMessage] initial
        = step dec (Onmessage clock inRuns (Runs r rs) turnCompleteMessage) mid"
    by (simp add: mid_def)
  have "messages (run dec
            [Onmessage clock inRuns outRuns (fragmentMessage Model ''Nice try. ''),
             Onmessage clock inRuns outRuns
               (fragmentMessage Model ''Correction: It is called a chair.''),
             Onmessage clock inRuns (Runs r rs) turnCompleteMessage] initial)
        = map (modelMessage ?text) (r # rs)"
    unfolding r3
    by (simp add: step_def render_frame transcript_only turn_messages [OF tc] id mid tx
          trim_Nil)
  then have ex: "map (\<lambda>x. (msg_role x, msg_text x, msg_type x)) (messages (run dec
            [Onmessage clock inRuns outRuns (fragmentMessage Model ''Nice try. ''),
             Onmessage clock inRuns outRuns
               (fragmentMessage Model ''Correction: It is called a chair.''),
             Onmessage clock inRuns (Runs r rs) turnCompleteMessage] initial))
         = replicate (Suc (length rs)) (Model, ?text, Correction)"
    using model_messages_view [of ?text "r # rs"] tx(2) by simp
  from msgs props ex show ?thesis by blast
qed

theorem turn_complete_classification_witness:
  "turnComplete turnCompleteMessage
   \<and> map (\<lambda>x. (msg_role x, msg_text x, msg_type x)) (messages (run decodeBase64Pcm
        [Onmessage 0 (once 0) (once 0) (fragmentMessage Model ''Nice try. ''),
         Onmessage 0 (once 0) (once 0)
           (fragmentMessage Model ''Correction: It is called a chair.''),
         Onmessage 0 (once 0) (Runs (0, 0) []) turnCompleteMessage] initial))
       = replicate (Suc (length ([] :: (nat \<times> nat) list)))
           (Model, ''Nice try. Correction: It is called a chair.'', Correction)"
proof -
  have h: "turnComplete turnCompleteMessage" by code_simp
  from turn_complete_classification
         [where dec = decodeBase64Pcm and clock = 0 and inRuns = "once 0"
            and outRuns = "once 0" and s = initial and r = "(0, 0)" and rs = "[]", OF h] h
  show ?thesis by blast
qed

text \<open>
  C7, as the claim has it, fails for the user's role: the user's turn \<open>Tip: what is it\<close>
  contains the marker \<open>tip:\<close> and is finalized with the type \<open>Chat\<close>.
\<close>

theorem user_marker_counterexample:
  "includes_str (toLowerCase ''Tip: what is it'') ''tip:''
   \<and> map msg_role (messages (run decodeBase64Pcm
        [Onmessage 0 (once 0) (once 0) (fragmentMessage User ''Tip: what is it''),
         Onmessage 0 (once 0) (once 0) turnCompleteMessage] initial)) = [User]
   \<and> map msg_text (messages (run decodeBase64Pcm
        [Onmessage 0 (once 0) (once 0) (fragmentMessage User ''Tip: what is it''),
         Onmessage 0 (once 0) (once 0) turnCompleteMessage] initial)) = [''Tip: what is it'']
   \<and> map msg_type (messages (run decodeBase64Pcm
        [Onmessage 0 (once 0) (once 0) (fragmentMessage User ''Tip: what is it''),
         Onmessage 0 (once 0) (once 0) turnCompleteMessage] initial)) = [Chat]"
  by code_simp











lemma connect_messages: "messages (connect a s) = messages s"
  by (cases a)
     (simp_all add: connectCatch_def connectBegin_def createContexts_def getUserMedia_def
        liveConnect_def Let_def)

lemma disconnect_messages: "messages (final (disconnect s)) = messages s"
  by (simp add: disconnect_def closeContexts_def closeSession_def stopAll_eq Let_def
        context_close_def tryCatch_def session_close_def split: option.splits)

lemma onmessage_types:
  assumes "\<forall>x \<in> set (messages s). msg_type x \<noteq> Tip"
  shows "\<forall>x \<in> set (messages (final (onmessage dec clock inRuns outRuns m s))). msg_type x \<noteq> Tip"
proof (cases "turnComplete m")
  case True
  show ?thesis
    using assms
    by (auto simp: transcript_only turn_messages [OF True] transcription_messages
          message_fields split: if_splits)
next
  case False
  then show ?thesis
    using assms by (simp add: transcript_only onTurnComplete_def transcription_messages)
qed

lemma handle_types:
  assumes "\<forall>x \<in> set (messages s). msg_type x \<noteq> Tip"
  shows "\<forall>x \<in> set (messages (handle dec ev s)). msg_type x \<noteq> Tip"
proof (cases ev)
  case (Click a)
  then show ?thesis using assms by (simp add: connect_messages disconnect_messages)
next
  case Onopen
  then show ?thesis using assms by simp
next
  case (Onmessage clock inRuns outRuns m)
  then show ?thesis using onmessage_types [OF assms] by simp
next
  case Onerror
  then show ?thesis using assms by (simp add: disconnect_messages)
next
  case Onclose
  then show ?thesis using assms by (simp add: disconnect_messages)
next
  case (Ended h)
  then show ?thesis using assms by (simp add: onEnded_def)
qed

lemma run_types:
  "\<forall>x \<in> set (messages s). msg_type x \<noteq> Tip \<Longrightarrow>
   \<forall>x \<in> set (messages (run dec evs s)). msg_type x \<noteq> Tip"
proof (induction evs arbitrary: s)
  case Nil
  then show ?case by simp
next
  case (Cons ev evs)
  have "\<forall>x \<in> set (messages (step dec ev s)). msg_type x \<noteq> Tip"
    using handle_types [OF Cons.prems] by (simp add: step_def render_frame)
  then show ?case using Cons.IH by simp
qed

text \<open>
  C10. Whatever events the component handles from its initial state, every message in
  the history has the type \<open>Chat\<close> or \<open>Correction\<close>; none has the type \<open>Tip\<close>.
\<close>

theorem no_tip_messages:
  "\<forall>x \<in> set (messages (run dec evs initial)). msg_type x = Chat \<or> msg_type x = Correction"
proof
  fix x
  assume x: "x \<in> set (messages (run dec evs initial))"
  have "\<forall>x \<in> set (messages initial). msg_type x \<noteq> Tip" by (simp add: initial_def)
  then have "msg_type x \<noteq> Tip" using run_types x by blast
  then show "msg_type x = Chat \<or> msg_type x = Correction" by (cases "msg_type x") simp_all
qed

theorem no_tip_messages_witness:
  "messages (run decodeBase64Pcm
      [Onmessage 0 (once 0) (once 0) (fragmentMessage Model ''Tip: listen first''),
       Onmessage 0 (once 0) (once 0) turnCompleteMessage] initial) \<noteq> []
   \<and> (msg_type (hd (messages (run decodeBase64Pcm
          [Onmessage 0 (once 0) (once 0) (fragmentMessage Model ''Tip: listen first''),
           Onmessage 0 (once 0) (once 0) turnCompleteMessage] initial))) = Chat
      \<or> msg_type (hd (messages (run decodeBase64Pcm
          [Onmessage 0 (once 0) (once 0) (fragmentMessage Model ''Tip: listen first''),
           Onmessage 0 (once 0) (once 0) turnCompleteMessage] initial))) = Correction)"
proof -
  have n: "messages (run decodeBase64Pcm
      [Onmessage 0 (once 0) (once 0) (fragmentMessage Model ''Tip: listen first''),
       Onmessage 0 (once 0) (once 0) turnCompleteMessage] initial) \<noteq> []"
    by code_simp
  then have "hd (messages (run decodeBase64Pcm
      [Onmessage 0 (once 0) (once 0) (fragmentMessage Model ''Tip: listen first''),
       Onmessage 0 (once 0) (once 0) turnCompleteMessage] initial))
    \<in> set (messages (run decodeBase64Pcm
      [Onmessage 0 (once 0) (once 0) (fragmentMessage Model ''Tip: listen first''),
       Onmessage 0 (once 0) (once 0) turnCompleteMessage] initial))"
    by (rule hd_in_set)
  with no_tip_messages
         [of decodeBase64Pcm "[Onmessage 0 (once 0) (once 0) (fragmentMessage Model ''Tip: listen first''),
           Onmessage 0 (once 0) (once 0) turnCompleteMessage]"] n
  show ?thesis by blast
qed

end
